theory Spec2Isabelle
  imports Complex_Main
begin

section \<open>Heat exchanger performance calculator (app.py)\<close>

text \<open>
  The program is one straight-line Streamlit script: it reads three unit selectors and nine
  text fields, parses and normalises them, and either shows three results and a chart or
  one informational message.  The model follows the script line by line.

  Numbers.  Every number of the script is a Python \<open>float\<close>.  The model keeps the
  special values of that type (both infinities and not-a-number) and takes every finite
  value as an exact real: rounding, overflow to infinity, underflow to zero and the sign
  of zero are not modelled.  What Python does beyond arithmetic is modelled as it is:
  \<open>/\<close> on two Python floats raises \<open>ZeroDivisionError\<close> on a zero divisor, while
  \<open>np.log\<close> and a division whose right operand is a numpy scalar return a special
  value instead.

  Text.  A field's text is a list of code points below 256.
\<close>

subsection \<open>Python floats and the operations the script uses\<close>

datatype pyfloat = Fin real | PInf | NInf | NaN

datatype error = ValueError | ZeroDivisionError

text \<open>\<open>a + b\<close>, \<open>a - b\<close> and \<open>a * b\<close> never raise.\<close>

fun float_add :: "pyfloat \<Rightarrow> pyfloat \<Rightarrow> pyfloat" where
  "float_add (Fin a) (Fin b) = Fin (a + b)"
| "float_add NaN _ = NaN"
| "float_add _ NaN = NaN"
| "float_add PInf NInf = NaN"
| "float_add NInf PInf = NaN"
| "float_add PInf _ = PInf"
| "float_add _ PInf = PInf"
| "float_add NInf _ = NInf"
| "float_add _ NInf = NInf"

fun float_sub :: "pyfloat \<Rightarrow> pyfloat \<Rightarrow> pyfloat" where
  "float_sub (Fin a) (Fin b) = Fin (a - b)"
| "float_sub NaN _ = NaN"
| "float_sub _ NaN = NaN"
| "float_sub PInf PInf = NaN"
| "float_sub NInf NInf = NaN"
| "float_sub PInf _ = PInf"
| "float_sub _ PInf = NInf"
| "float_sub NInf _ = NInf"
| "float_sub _ NInf = PInf"

fun float_mul :: "pyfloat \<Rightarrow> pyfloat \<Rightarrow> pyfloat" where
  "float_mul (Fin a) (Fin b) = Fin (a * b)"
| "float_mul NaN _ = NaN"
| "float_mul _ NaN = NaN"
| "float_mul PInf (Fin b) = (if b = 0 then NaN else if 0 < b then PInf else NInf)"
| "float_mul NInf (Fin b) = (if b = 0 then NaN else if 0 < b then NInf else PInf)"
| "float_mul (Fin a) PInf = (if a = 0 then NaN else if 0 < a then PInf else NInf)"
| "float_mul (Fin a) NInf = (if a = 0 then NaN else if 0 < a then NInf else PInf)"
| "float_mul PInf PInf = PInf"
| "float_mul NInf NInf = PInf"
| "float_mul PInf NInf = NInf"
| "float_mul NInf PInf = NInf"

text \<open>
  The IEEE quotient.  On a zero divisor it is infinite or not-a-number; the zero is read
  as positive, the sign of zero not being modelled.
\<close>

fun ieee_div :: "pyfloat \<Rightarrow> pyfloat \<Rightarrow> pyfloat" where
  "ieee_div (Fin a) (Fin b) =
     (if b = 0 then (if a = 0 then NaN else if 0 < a then PInf else NInf) else Fin (a / b))"
| "ieee_div NaN _ = NaN"
| "ieee_div _ NaN = NaN"
| "ieee_div (Fin a) PInf = Fin 0"
| "ieee_div (Fin a) NInf = Fin 0"
| "ieee_div PInf (Fin b) = (if b < 0 then NInf else PInf)"
| "ieee_div NInf (Fin b) = (if b < 0 then PInf else NInf)"
| "ieee_div PInf PInf = NaN"
| "ieee_div PInf NInf = NaN"
| "ieee_div NInf PInf = NaN"
| "ieee_div NInf NInf = NaN"

text \<open>
  \<open>a / b\<close> on two Python floats: a zero divisor raises, whatever the dividend is.
\<close>

definition float_truediv :: "pyfloat \<Rightarrow> pyfloat \<Rightarrow> error + pyfloat" where
  "float_truediv a b = (if b = Fin 0 then Inl ZeroDivisionError else Inr (ieee_div a b))"

text \<open>
  \<open>a / b\<close> where \<open>b\<close> is a numpy scalar (the value of \<open>np.log\<close>): numpy's division is
  chosen, which warns on a zero divisor and returns the IEEE quotient.
\<close>

definition np_true_divide :: "pyfloat \<Rightarrow> pyfloat \<Rightarrow> pyfloat" where
  "np_true_divide a b = ieee_div a b"

text \<open>\<open>np.log\<close>: minus infinity at zero, not-a-number below zero, no exception.\<close>

fun np_log :: "pyfloat \<Rightarrow> pyfloat" where
  "np_log (Fin a) = (if 0 < a then Fin (ln a) else if a = 0 then NInf else NaN)"
| "np_log PInf = PInf"
| "np_log NInf = NaN"
| "np_log NaN = NaN"

text \<open>\<open>a != b\<close> and \<open>a < b\<close>: not-a-number differs from everything and is below nothing.\<close>

fun float_ne :: "pyfloat \<Rightarrow> pyfloat \<Rightarrow> bool" where
  "float_ne NaN _ = True"
| "float_ne _ NaN = True"
| "float_ne a b = (a \<noteq> b)"

fun float_lt :: "pyfloat \<Rightarrow> pyfloat \<Rightarrow> bool" where
  "float_lt (Fin a) (Fin b) = (a < b)"
| "float_lt NaN _ = False"
| "float_lt _ NaN = False"
| "float_lt NInf NInf = False"
| "float_lt NInf _ = True"
| "float_lt _ NInf = False"
| "float_lt PInf _ = False"
| "float_lt _ PInf = True"

text \<open>
  The builtin \<open>min(a, b)\<close> keeps its first argument unless the second is smaller.
\<close>

definition py_min :: "pyfloat \<Rightarrow> pyfloat \<Rightarrow> pyfloat" where
  "py_min a b = (if float_lt b a then b else a)"

subsection \<open>The builtin \<open>float(text)\<close>\<close>

text \<open>
  \<open>float\<close> first maps the two non-ASCII spaces below 256 to a blank, strips white space at
  both ends, checks that every underscore stands between two digits and removes them, and
  then reads either \<open>inf\<close>, \<open>infinity\<close> or \<open>nan\<close> (any letter case, with an optional
  sign) or a decimal literal: an optional sign, digits with an optional point and at least
  one digit, and an optional exponent with at least one digit.  Anything else, the empty
  text included, raises \<open>ValueError\<close>.  The value of a decimal literal is taken exactly.
\<close>

definition Py_ISSPACE :: "char \<Rightarrow> bool" where
  "Py_ISSPACE c = (c \<in> set [CHR 0x09, CHR 0x0A, CHR 0x0B, CHR 0x0C, CHR 0x0D, CHR 0x20])"

definition space_to_ascii :: "char \<Rightarrow> char" where
  "space_to_ascii c = (if c = CHR 0x85 \<or> c = CHR 0xA0 then CHR 0x20 else c)"

definition strip :: "string \<Rightarrow> string" where
  "strip s = rev (dropWhile Py_ISSPACE (rev (dropWhile Py_ISSPACE s)))"

definition is_digit :: "char \<Rightarrow> bool" where
  "is_digit c = (c \<in> set ''0123456789'')"

fun underscores_ok :: "char \<Rightarrow> string \<Rightarrow> bool" where
  "underscores_ok prev [] = (prev \<noteq> CHR ''_'')"
| "underscores_ok prev (c # cs) =
     ((if c = CHR ''_'' then is_digit prev
       else if prev = CHR ''_'' then is_digit c else True)
      \<and> underscores_ok c cs)"

definition digit_val :: "char \<Rightarrow> nat" where
  "digit_val c = of_char c - 48"

definition digits_val :: "string \<Rightarrow> nat" where
  "digits_val ds = foldl (\<lambda>a c. 10 * a + digit_val c) 0 ds"

definition take_sign :: "string \<Rightarrow> bool \<times> string" where
  "take_sign s =
     (case s of
        c # r \<Rightarrow> if c = CHR ''-'' then (True, r) else if c = CHR ''+'' then (False, r)
                 else (False, s)
      | [] \<Rightarrow> (False, s))"

definition to_lower :: "char \<Rightarrow> char" where
  "to_lower c =
     (if (65::nat) \<le> of_char c \<and> of_char c \<le> (90::nat) then char_of (of_char c + (32::nat))
      else c)"

definition parse_inf_or_nan :: "string \<Rightarrow> pyfloat option" where
  "parse_inf_or_nan s =
     (let (neg, r) = take_sign s; l = map to_lower r
      in if l = ''inf'' \<or> l = ''infinity'' then Some (if neg then NInf else PInf)
         else if l = ''nan'' then Some NaN
         else None)"

definition parse_exponent :: "string \<Rightarrow> int option" where
  "parse_exponent s =
     (case s of
        [] \<Rightarrow> Some 0
      | c # t \<Rightarrow>
          if c = CHR ''e'' \<or> c = CHR ''E'' then
            (let (eneg, ds) = take_sign t
             in if ds \<noteq> [] \<and> list_all is_digit ds
                then Some (if eneg then - int (digits_val ds) else int (digits_val ds))
                else None)
          else None)"

definition parse_decimal :: "string \<Rightarrow> real option" where
  "parse_decimal s =
     (let (neg, r) = take_sign s;
          ip = takeWhile is_digit r;
          r1 = dropWhile is_digit r;
          (fp, r2) = (case r1 of
                        c # t \<Rightarrow> if c = CHR ''.''
                                 then (takeWhile is_digit t, dropWhile is_digit t)
                                 else ([], r1)
                      | [] \<Rightarrow> ([], r1))
      in if ip = [] \<and> fp = [] then None
         else (case parse_exponent r2 of
                 None \<Rightarrow> None
               | Some e \<Rightarrow>
                   Some ((if neg then - 1 else 1) * real (digits_val (ip @ fp))
                         * 10 powi (e - int (length fp)))))"

definition py_float :: "string \<Rightarrow> error + pyfloat" where
  "py_float text =
     (let s = strip (map space_to_ascii text)
      in if \<not> underscores_ok (CHR 0x00) s then Inl ValueError
         else (let t = filter (\<lambda>c. c \<noteq> CHR ''_'') s
               in case parse_inf_or_nan t of
                    Some v \<Rightarrow> Inr v
                  | None \<Rightarrow> (case parse_decimal t of
                               Some x \<Rightarrow> Inr (Fin x)
                             | None \<Rightarrow> Inl ValueError)))"

subsection \<open>Parsing a field: \<open>to_float\<close>\<close>

text \<open>
  \<open>to_float\<close> returns the float, or \<open>None\<close> when \<open>float\<close> raises (the bare
  \<open>except\<close> catches every exception).
\<close>

definition to_float :: "string \<Rightarrow> pyfloat option" where
  "to_float val = (case py_float val of Inr x \<Rightarrow> Some x | Inl _ \<Rightarrow> None)"

subsection \<open>Unit selectors and unit conversions\<close>

text \<open>
  Each selector is a radio button, so its value is one of the listed options.
\<close>

datatype temp_unit = degC | degF

datatype mass_unit = kg_per_s | lb_per_s

datatype cp_unit = kJ_per_kgC | J_per_kgC | BTU_per_lbF

text \<open>
  The divisors 9 and 1000 are literals, so \<open>/\<close> cannot raise here and is the IEEE
  quotient.
\<close>

definition to_celsius :: "temp_unit \<Rightarrow> pyfloat \<Rightarrow> pyfloat" where
  "to_celsius unit_temp temp =
     (if unit_temp = degF then ieee_div (float_mul (float_sub temp (Fin 32)) (Fin 5)) (Fin 9)
      else temp)"

definition to_kg :: "mass_unit \<Rightarrow> pyfloat \<Rightarrow> pyfloat" where
  "to_kg unit_mass mass =
     (if unit_mass = lb_per_s then float_mul mass (Fin 0.453592) else mass)"

definition to_kj_per_kgC :: "cp_unit \<Rightarrow> pyfloat \<Rightarrow> pyfloat" where
  "to_kj_per_kgC unit_cp cp =
     (if unit_cp = J_per_kgC then ieee_div cp (Fin 1000)
      else if unit_cp = BTU_per_lbF then float_mul cp (Fin 4.1868)
      else cp)"

subsection \<open>Raw input, normalised input and the completeness gate\<close>

record raw_input =
  unit_temp :: temp_unit
  unit_mass :: mass_unit
  unit_cp :: cp_unit
  Th_in_input :: string
  Th_out_input :: string
  m_hot_input :: string
  Tc_in_input :: string
  Tc_out_input :: string
  m_cold_input :: string
  Cp_input :: string
  U_input :: string
  A_input :: string

text \<open>
  \<open>convert f text\<close> is the script's \<open>f(to_float(text)) if to_float(text) is not None
  else None\<close>.  \<open>parsed\<close> holds the nine variables \<open>Th_in\<close>, ..., \<open>A\<close> after
  parsing, each a float or \<open>None\<close>, in the order of the list that \<open>inputs_filled\<close>
  tests.
\<close>

definition convert :: "(pyfloat \<Rightarrow> pyfloat) \<Rightarrow> string \<Rightarrow> pyfloat option" where
  "convert f text = (if to_float text \<noteq> None then Some (f (the (to_float text))) else None)"

definition parsed :: "raw_input \<Rightarrow> pyfloat option list" where
  "parsed r =
     [convert (to_celsius (unit_temp r)) (Th_in_input r),
      convert (to_celsius (unit_temp r)) (Th_out_input r),
      convert (to_kg (unit_mass r)) (m_hot_input r),
      convert (to_celsius (unit_temp r)) (Tc_in_input r),
      convert (to_celsius (unit_temp r)) (Tc_out_input r),
      convert (to_kg (unit_mass r)) (m_cold_input r),
      convert (to_kj_per_kgC (unit_cp r)) (Cp_input r),
      to_float (U_input r),
      to_float (A_input r)]"

definition inputs_filled :: "raw_input \<Rightarrow> bool" where
  "inputs_filled r = list_all (\<lambda>x. x \<noteq> None) (parsed r)"

record normalized_input =
  Th_in :: pyfloat
  Th_out :: pyfloat
  m_hot :: pyfloat
  Tc_in :: pyfloat
  Tc_out :: pyfloat
  m_cold :: pyfloat
  Cp :: pyfloat
  U :: pyfloat
  A :: pyfloat

text \<open>The values of the nine variables inside the branch that \<open>inputs_filled\<close> guards.\<close>

definition normalized_of :: "raw_input \<Rightarrow> normalized_input option" where
  "normalized_of r =
     (if inputs_filled r
      then Some \<lparr>Th_in = the (parsed r ! 0), Th_out = the (parsed r ! 1),
                 m_hot = the (parsed r ! 2), Tc_in = the (parsed r ! 3),
                 Tc_out = the (parsed r ! 4), m_cold = the (parsed r ! 5),
                 Cp = the (parsed r ! 6), U = the (parsed r ! 7), A = the (parsed r ! 8)\<rparr>
      else None)"

subsection \<open>The thermal computation\<close>

definition Q_hot :: "normalized_input \<Rightarrow> pyfloat" where
  "Q_hot n = float_mul (float_mul (m_hot n) (Cp n)) (float_sub (Th_in n) (Th_out n))"

definition Q_cold :: "normalized_input \<Rightarrow> pyfloat" where
  "Q_cold n = float_mul (float_mul (m_cold n) (Cp n)) (float_sub (Tc_out n) (Tc_in n))"

definition Q_avg :: "normalized_input \<Rightarrow> pyfloat" where
  "Q_avg n = ieee_div (float_add (Q_hot n) (Q_cold n)) (Fin 2)"

definition delta_T1 :: "normalized_input \<Rightarrow> pyfloat" where
  "delta_T1 n = float_sub (Th_in n) (Tc_out n)"

definition delta_T2 :: "normalized_input \<Rightarrow> pyfloat" where
  "delta_T2 n = float_sub (Th_out n) (Tc_in n)"

text \<open>
  The quotient \<open>delta_T1 / delta_T2\<close> is a division of two Python floats and may raise;
  the outer division has the numpy scalar \<open>np.log(...)\<close> as its divisor.
\<close>

definition LMTD :: "normalized_input \<Rightarrow> error + pyfloat" where
  "LMTD n =
     (if float_ne (delta_T1 n) (delta_T2 n)
      then (case float_truediv (delta_T1 n) (delta_T2 n) of
              Inl e \<Rightarrow> Inl e
            | Inr q \<Rightarrow> Inr (np_true_divide (float_sub (delta_T1 n) (delta_T2 n)) (np_log q)))
      else Inr (delta_T1 n))"

definition C_min :: "normalized_input \<Rightarrow> pyfloat" where
  "C_min n = py_min (float_mul (m_hot n) (Cp n)) (float_mul (m_cold n) (Cp n))"

definition effectiveness :: "normalized_input \<Rightarrow> error + pyfloat" where
  "effectiveness n =
     float_truediv (Q_avg n) (float_mul (C_min n) (float_sub (Th_in n) (Tc_in n)))"

record thermal_result =
  res_Q_hot :: pyfloat
  res_Q_cold :: pyfloat
  res_Q_avg :: pyfloat
  res_LMTD :: pyfloat
  res_C_min :: pyfloat
  res_effectiveness :: pyfloat

text \<open>
  The assignments in the order of the script: the first exception ends the run.
\<close>

definition thermal_solver :: "normalized_input \<Rightarrow> error + thermal_result" where
  "thermal_solver n =
     (case LMTD n of
        Inl e \<Rightarrow> Inl e
      | Inr l \<Rightarrow>
          (case effectiveness n of
             Inl e \<Rightarrow> Inl e
           | Inr eff \<Rightarrow>
               Inr \<lparr>res_Q_hot = Q_hot n, res_Q_cold = Q_cold n, res_Q_avg = Q_avg n,
                    res_LMTD = l, res_C_min = C_min n, res_effectiveness = eff\<rparr>))"

subsection \<open>The temperature profile\<close>

record figure =
  x_pos :: "nat list"
  T_hot :: "pyfloat list"
  T_cold :: "pyfloat list"

definition profile :: "normalized_input \<Rightarrow> figure" where
  "profile n = \<lparr>x_pos = [0, 1], T_hot = [Th_in n, Th_out n], T_cold = [Tc_in n, Tc_out n]\<rparr>"

text \<open>The samples the two plotted lines are drawn through.\<close>

definition samples :: "figure \<Rightarrow> (nat \<times> pyfloat \<times> pyfloat) list" where
  "samples f = zip (x_pos f) (zip (T_hot f) (T_cold f))"

subsection \<open>One evaluation of the script\<close>

text \<open>
  What one run puts on the page from the gate on, in order, and the exception that ended
  the run, if any.  A result line carries the text before the number, the number that is
  formatted to two decimals, and the text after it.  The download link stands for the
  encoded image.
\<close>

datatype widget =
    Markdown string
  | Success string pyfloat string
  | Pyplot figure
  | Button string
  | Download_link string
  | Info string

definition footer :: "widget list" where
  "footer =
     [Markdown ''<hr>'',
      Markdown ''<div style='text-align: center; color: gray;'>Made by Huzaifa Shahid | AI Data Engineer | Jadavpur University </div>'']"

definition results_header :: "widget list" where
  "results_header = [Markdown ''<hr>'', Markdown ''### Results Summary'']"

definition incomplete_message :: "widget list" where
  "incomplete_message =
     [Info ''Please fill all input fields with valid numeric values to see results and graph.'']"

definition results_widgets :: "normalized_input \<Rightarrow> thermal_result \<Rightarrow> bool \<Rightarrow> widget list" where
  "results_widgets n t clicked =
     [Success ''Heat Duty (Avg): '' (res_Q_avg t) '' kW'',
      Success ''Log Mean Temperature Difference (LMTD): '' (res_LMTD t)
        [CHR 0x20, CHR 0xB0, CHR ''C''],
      Success ''Effectiveness: '' (res_effectiveness t) [],
      Markdown ''<hr>'',
      Markdown ''### Temperature Profile Graph'',
      Pyplot (profile n),
      Button ''Download Graph as PNG'']
     @ (if clicked then [Download_link ''temperature_profile.png''] else [])"

definition calculator :: "raw_input \<Rightarrow> bool \<Rightarrow> widget list \<times> error option" where
  "calculator r clicked =
     (case normalized_of r of
        None \<Rightarrow> (incomplete_message @ footer, None)
      | Some n \<Rightarrow>
          (case thermal_solver n of
             Inl e \<Rightarrow> (results_header, Some e)
           | Inr t \<Rightarrow> (results_header @ results_widgets n t clicked @ footer, None)))"

text \<open>Which widgets are results or the chart, and which are informational messages.\<close>

fun is_result :: "widget \<Rightarrow> bool" where
  "is_result (Success _ _ _) = True"
| "is_result (Pyplot _) = True"
| "is_result _ = False"

fun is_info :: "widget \<Rightarrow> bool" where
  "is_info (Info _) = True"
| "is_info _ = False"

subsection \<open>Names for what the properties below speak about\<close>

text \<open>The nine text fields, in the order of the variables they fill.\<close>

definition text_fields :: "raw_input \<Rightarrow> string list" where
  "text_fields r =
     [Th_in_input r, Th_out_input r, m_hot_input r, Tc_in_input r, Tc_out_input r,
      m_cold_input r, Cp_input r, U_input r, A_input r]"




text \<open>The charts on a page.\<close>

fun chart_of :: "widget \<Rightarrow> figure option" where
  "chart_of (Pyplot f) = Some f"
| "chart_of _ = None"

definition charts :: "widget list \<Rightarrow> figure list" where
  "charts ws = List.map_filter chart_of ws"

text \<open>
  The two places where the script divides one Python float by another: a zero divisor
  there raises.
\<close>

definition zero_divisor :: "normalized_input \<Rightarrow> bool" where
  "zero_divisor n =
     ((float_ne (delta_T1 n) (delta_T2 n) \<and> delta_T2 n = Fin 0)
      \<or> float_mul (C_min n) (float_sub (Th_in n) (Tc_in n)) = Fin 0)"

text \<open>
  Example inputs: the energy-balance scenario (80 to 50 degrees on the hot side, 20 to 45
  on the cold side, 1 and 1.2 kg/s, 4.18 kJ/kg/degree), and variations of it with no hot
  flow, with the hot outlet at the cold inlet temperature, with equal inlet temperatures,
  and with the last field left blank.
\<close>

definition scenario_input :: raw_input where
  "scenario_input =
     \<lparr>unit_temp = degC, unit_mass = kg_per_s, unit_cp = kJ_per_kgC,
      Th_in_input = ''80'', Th_out_input = ''50'', m_hot_input = ''1'',
      Tc_in_input = ''20'', Tc_out_input = ''45'', m_cold_input = ''1.2'',
      Cp_input = ''4.18'', U_input = ''500'', A_input = ''10''\<rparr>"

definition scenario :: "pyfloat \<Rightarrow> pyfloat \<Rightarrow> normalized_input" where
  "scenario u a =
     \<lparr>Th_in = Fin 80, Th_out = Fin 50, m_hot = Fin 1, Tc_in = Fin 20, Tc_out = Fin 45,
      m_cold = Fin 1.2, Cp = Fin 4.18, U = u, A = a\<rparr>"

definition zero_flow_input :: raw_input where
  "zero_flow_input = scenario_input\<lparr>m_hot_input := ''0''\<rparr>"

definition pinch_input :: raw_input where
  "pinch_input = scenario_input\<lparr>Th_out_input := ''20''\<rparr>"

definition equal_inlets_input :: raw_input where
  "equal_inlets_input = scenario_input\<lparr>Th_in_input := ''20'', Th_out_input := ''10''\<rparr>"

definition blank_area_input :: raw_input where
  "blank_area_input = scenario_input\<lparr>A_input := []\<rparr>"

section \<open>Properties\<close>

subsection \<open>Auxiliary facts\<close>

lemmas float_text_defs =
  to_float_def py_float_def strip_def Py_ISSPACE_def space_to_ascii_def is_digit_def
  parse_inf_or_nan_def take_sign_def to_lower_def parse_decimal_def parse_exponent_def
  digits_val_def digit_val_def

lemma to_float_examples:
  "to_float ''80'' = Some (Fin 80)"
  "to_float ''50'' = Some (Fin 50)"
  "to_float ''1'' = Some (Fin 1)"
  "to_float ''20'' = Some (Fin 20)"
  "to_float ''45'' = Some (Fin 45)"
  "to_float ''1.2'' = Some (Fin 1.2)"
  "to_float ''4.18'' = Some (Fin 4.18)"
  "to_float ''500'' = Some (Fin 500)"
  "to_float ''10'' = Some (Fin 10)"
  "to_float ''0'' = Some (Fin 0)"
  "to_float ''176'' = Some (Fin 176)"
  "to_float [] = None"
  by (simp_all add: float_text_defs)

text \<open>A division by a literal other than zero is the IEEE quotient.\<close>

lemma literal_divisors_never_raise:
  "float_truediv a (Fin 9) = Inr (ieee_div a (Fin 9))"
  "float_truediv a (Fin 1000) = Inr (ieee_div a (Fin 1000))"
  "float_truediv a (Fin 2) = Inr (ieee_div a (Fin 2))"
  by (simp_all add: float_truediv_def)

lemma inputs_filled_iff:
  "inputs_filled r = list_all (\<lambda>s. to_float s \<noteq> None) (text_fields r)"
  by (simp add: inputs_filled_def parsed_def convert_def text_fields_def)

lemma normalized_of_filled:
  assumes "inputs_filled r"
  shows "normalized_of r =
     Some \<lparr>Th_in = to_celsius (unit_temp r) (the (to_float (Th_in_input r))),
           Th_out = to_celsius (unit_temp r) (the (to_float (Th_out_input r))),
           m_hot = to_kg (unit_mass r) (the (to_float (m_hot_input r))),
           Tc_in = to_celsius (unit_temp r) (the (to_float (Tc_in_input r))),
           Tc_out = to_celsius (unit_temp r) (the (to_float (Tc_out_input r))),
           m_cold = to_kg (unit_mass r) (the (to_float (m_cold_input r))),
           Cp = to_kj_per_kgC (unit_cp r) (the (to_float (Cp_input r))),
           U = the (to_float (U_input r)), A = the (to_float (A_input r))\<rparr>"
proof -
  from assms have "list_all (\<lambda>s. to_float s \<noteq> None) (text_fields r)"
    by (simp add: inputs_filled_iff)
  then have "parsed r =
     [Some (to_celsius (unit_temp r) (the (to_float (Th_in_input r)))),
      Some (to_celsius (unit_temp r) (the (to_float (Th_out_input r)))),
      Some (to_kg (unit_mass r) (the (to_float (m_hot_input r)))),
      Some (to_celsius (unit_temp r) (the (to_float (Tc_in_input r)))),
      Some (to_celsius (unit_temp r) (the (to_float (Tc_out_input r)))),
      Some (to_kg (unit_mass r) (the (to_float (m_cold_input r)))),
      Some (to_kj_per_kgC (unit_cp r) (the (to_float (Cp_input r)))),
      Some (the (to_float (U_input r))), Some (the (to_float (A_input r)))]"
    by (simp add: parsed_def convert_def text_fields_def)
  with assms show ?thesis
    by (simp add: normalized_of_def)
qed

lemma normalized_of_None_iff: "normalized_of r = None \<longleftrightarrow> \<not> inputs_filled r"
  by (simp add: normalized_of_def)

lemma scenario_input_filled: "inputs_filled scenario_input"
  by (simp add: inputs_filled_iff text_fields_def scenario_input_def to_float_examples)

lemma normalized_of_scenario_input: "normalized_of scenario_input = Some (scenario (Fin 500) (Fin 10))"
  by (simp add: normalized_of_filled [OF scenario_input_filled] scenario_def)
    (simp add: scenario_input_def to_float_examples to_celsius_def to_kg_def to_kj_per_kgC_def)

lemma LMTD_raises_iff:
  "LMTD n = Inl e \<longleftrightarrow>
     e = ZeroDivisionError \<and> float_ne (delta_T1 n) (delta_T2 n) \<and> delta_T2 n = Fin 0"
  by (auto simp: LMTD_def float_truediv_def)

lemma effectiveness_raises_iff:
  "effectiveness n = Inl e \<longleftrightarrow>
     e = ZeroDivisionError \<and> float_mul (C_min n) (float_sub (Th_in n) (Tc_in n)) = Fin 0"
  by (auto simp: effectiveness_def float_truediv_def)

lemma thermal_solver_raises:
  assumes "zero_divisor n"
  shows "thermal_solver n = Inl ZeroDivisionError"
proof (cases "LMTD n")
  case (Inl e)
  then have "e = ZeroDivisionError" by (simp add: LMTD_raises_iff)
  with Inl show ?thesis by (simp add: thermal_solver_def)
next
  case (Inr l)
  have "\<not> (float_ne (delta_T1 n) (delta_T2 n) \<and> delta_T2 n = Fin 0)"
  proof
    assume "float_ne (delta_T1 n) (delta_T2 n) \<and> delta_T2 n = Fin 0"
    then have "LMTD n = Inl ZeroDivisionError"
      using LMTD_raises_iff [of n ZeroDivisionError] by blast
    with Inr show False by simp
  qed
  with assms have "float_mul (C_min n) (float_sub (Th_in n) (Tc_in n)) = Fin 0"
    by (simp add: zero_divisor_def)
  then have "effectiveness n = Inl ZeroDivisionError" by (simp add: effectiveness_raises_iff)
  with Inr show ?thesis by (simp add: thermal_solver_def)
qed

lemma thermal_solver_returns:
  assumes "\<not> zero_divisor n"
  shows "\<exists>l eff. LMTD n = Inr l \<and> effectiveness n = Inr eff \<and>
     thermal_solver n =
       Inr \<lparr>res_Q_hot = Q_hot n, res_Q_cold = Q_cold n, res_Q_avg = Q_avg n,
            res_LMTD = l, res_C_min = C_min n, res_effectiveness = eff\<rparr>"
proof -
  from assms obtain l where l: "LMTD n = Inr l"
    by (cases "LMTD n") (auto simp: zero_divisor_def LMTD_raises_iff)
  from assms obtain eff where eff: "effectiveness n = Inr eff"
    by (cases "effectiveness n") (auto simp: zero_divisor_def effectiveness_raises_iff)
  from l eff show ?thesis by (simp add: thermal_solver_def)
qed

lemma calculator_incomplete:
  "\<not> inputs_filled r \<Longrightarrow> calculator r c = (incomplete_message @ footer, None)"
  by (simp add: calculator_def normalized_of_def)

lemma calculator_raises:
  "normalized_of r = Some n \<Longrightarrow> zero_divisor n \<Longrightarrow>
     calculator r c = (results_header, Some ZeroDivisionError)"
  by (simp add: calculator_def thermal_solver_raises)

lemma calculator_results:
  "normalized_of r = Some n \<Longrightarrow> thermal_solver n = Inr t \<Longrightarrow>
     calculator r c = (results_header @ results_widgets n t c @ footer, None)"
  by (simp add: calculator_def)

lemma result_counts:
  "filter is_result results_header = []"
  "filter is_result footer = []"
  "filter is_result incomplete_message = []"
  "length (filter is_result (results_widgets n t c)) = 4"
  "filter is_info results_header = []"
  "filter is_info footer = []"
  "length (filter is_info incomplete_message) = 1"
  "filter is_info (results_widgets n t c) = []"
  by (simp_all add: results_header_def footer_def incomplete_message_def results_widgets_def)

lemma gate_cases:
  "(normalized_of r \<noteq> None \<longleftrightarrow> inputs_filled r)
   \<and> length (filter is_result (fst (calculator r c))) =
       (if \<exists>n. normalized_of r = Some n \<and> \<not> zero_divisor n then 4 else 0)
   \<and> length (filter is_info (fst (calculator r c))) = (if inputs_filled r then 0 else 1)
   \<and> (\<not> inputs_filled r \<longrightarrow> calculator r c = (incomplete_message @ footer, None))"
proof (cases "normalized_of r")
  case None
  then have nf: "\<not> inputs_filled r" by (simp add: normalized_of_None_iff)
  with None show ?thesis
    by (simp add: calculator_incomplete result_counts)
next
  case (Some n)
  then have f: "inputs_filled r" by (simp add: normalized_of_def split: if_splits)
  show ?thesis
  proof (cases "zero_divisor n")
    case True
    with Some f show ?thesis
      by (simp add: calculator_raises result_counts)
  next
    case False
    from thermal_solver_returns [OF False] obtain t where "thermal_solver n = Inr t" by blast
    with Some f False show ?thesis
      by (simp add: calculator_results result_counts)
  qed
qed

text \<open>The example inputs after parsing.\<close>

lemma example_inputs_filled:
  "inputs_filled zero_flow_input"
  "inputs_filled pinch_input"
  "inputs_filled equal_inlets_input"
  "\<not> inputs_filled blank_area_input"
  by (simp_all add: inputs_filled_iff text_fields_def zero_flow_input_def pinch_input_def
      equal_inlets_input_def blank_area_input_def scenario_input_def to_float_examples)

lemma normalized_of_zero_flow_input:
  "normalized_of zero_flow_input = Some ((scenario (Fin 500) (Fin 10))\<lparr>m_hot := Fin 0\<rparr>)"
  by (simp add: normalized_of_filled example_inputs_filled scenario_def)
    (simp add: zero_flow_input_def scenario_input_def to_float_examples to_celsius_def
      to_kg_def to_kj_per_kgC_def)

lemma normalized_of_pinch_input:
  "normalized_of pinch_input = Some ((scenario (Fin 500) (Fin 10))\<lparr>Th_out := Fin 20\<rparr>)"
  by (simp add: normalized_of_filled example_inputs_filled scenario_def)
    (simp add: pinch_input_def scenario_input_def to_float_examples to_celsius_def
      to_kg_def to_kj_per_kgC_def)

lemma normalized_of_equal_inlets_input:
  "normalized_of equal_inlets_input =
     Some ((scenario (Fin 500) (Fin 10))\<lparr>Th_in := Fin 20, Th_out := Fin 10\<rparr>)"
  by (simp add: normalized_of_filled example_inputs_filled scenario_def)
    (simp add: equal_inlets_input_def scenario_input_def to_float_examples to_celsius_def
      to_kg_def to_kj_per_kgC_def)

lemma scenario_no_zero_divisor: "\<not> zero_divisor (scenario u a)"
  by (simp add: zero_divisor_def scenario_def delta_T1_def delta_T2_def C_min_def py_min_def)




lemma quantities_ignore_U_A:
  "Q_hot (n\<lparr>U := u, A := a\<rparr>) = Q_hot n"
  "Q_cold (n\<lparr>U := u, A := a\<rparr>) = Q_cold n"
  "delta_T1 (n\<lparr>U := u, A := a\<rparr>) = delta_T1 n"
  "delta_T2 (n\<lparr>U := u, A := a\<rparr>) = delta_T2 n"
  "C_min (n\<lparr>U := u, A := a\<rparr>) = C_min n"
  by (simp_all add: Q_hot_def Q_cold_def delta_T1_def delta_T2_def C_min_def)

lemma results_ignore_U_A:
  "Q_avg (n\<lparr>U := u, A := a\<rparr>) = Q_avg n"
  "LMTD (n\<lparr>U := u, A := a\<rparr>) = LMTD n"
  by (simp_all add: Q_avg_def LMTD_def quantities_ignore_U_A cong: sum.case_cong)

lemma effectiveness_ignores_U_A:
  "effectiveness (n\<lparr>U := u, A := a\<rparr>) = effectiveness n"
  by (simp add: effectiveness_def quantities_ignore_U_A results_ignore_U_A)

lemma solver_ignores_U_A:
  "thermal_solver (n\<lparr>U := u, A := a\<rparr>) = thermal_solver n"
  "profile (n\<lparr>U := u, A := a\<rparr>) = profile n"
  by (simp_all add: thermal_solver_def profile_def quantities_ignore_U_A results_ignore_U_A
      effectiveness_ignores_U_A cong: sum.case_cong)

lemma results_widgets_U_A:
  "results_widgets (n\<lparr>U := u, A := a\<rparr>) t c = results_widgets n t c"
  by (simp add: results_widgets_def solver_ignores_U_A)

lemma U_A_change:
  assumes "to_float (U_input r) \<noteq> None" "to_float (A_input r) \<noteq> None"
    "to_float u \<noteq> None" "to_float a \<noteq> None"
  shows "calculator (r\<lparr>U_input := u, A_input := a\<rparr>) c = calculator r c"
proof (cases "inputs_filled r")
  case False
  with assms have "\<not> inputs_filled (r\<lparr>U_input := u, A_input := a\<rparr>)"
    by (simp add: inputs_filled_iff text_fields_def)
  with False show ?thesis by (simp add: calculator_incomplete)
next
  case True
  with assms have f: "inputs_filled (r\<lparr>U_input := u, A_input := a\<rparr>)"
    by (simp add: inputs_filled_iff text_fields_def)
  obtain n where n: "normalized_of r = Some n"
    using True by (simp add: normalized_of_def)
  have n': "normalized_of (r\<lparr>U_input := u, A_input := a\<rparr>) =
      Some (n\<lparr>U := the (to_float u), A := the (to_float a)\<rparr>)"
    using n unfolding normalized_of_filled [OF f] normalized_of_filled [OF True] by auto
  show ?thesis
    by (simp add: calculator_def n n' solver_ignores_U_A results_widgets_U_A
        cong: sum.case_cong)
qed

subsection \<open>Unit conversions\<close>





subsection \<open>Energy balance\<close>



subsection \<open>Log-mean temperature difference and effectiveness\<close>





subsection \<open>Division by zero\<close>

text \<open>
  C1, as it holds.  For every complete set of nine parsed inputs such that
  \<open>C_min * (Th_in - Tc_in)\<close> is zero, the effectiveness division raises
  \<open>ZeroDivisionError\<close>; the same holds for a zero \<open>delta_T2\<close> inside the LMTD expression
  when \<open>delta_T1\<close> differs from \<open>delta_T2\<close>.  The run then ends after the results
  heading: no result line and no chart is shown, and no infinite or not-a-number value
  is displayed.
\<close>

theorem zero_divisor_raises:
  "(float_mul (C_min n) (float_sub (Th_in n) (Tc_in n)) = Fin 0 \<longrightarrow>
      effectiveness n = Inl ZeroDivisionError)
   \<and> (delta_T2 n = Fin 0 \<and> float_ne (delta_T1 n) (delta_T2 n) \<longrightarrow>
        LMTD n = Inl ZeroDivisionError)
   \<and> (normalized_of r = Some n \<and> zero_divisor n \<longrightarrow>
        calculator r c = (results_header, Some ZeroDivisionError)
        \<and> filter is_result (fst (calculator r c)) = [])"
  using LMTD_raises_iff [of n ZeroDivisionError]
    effectiveness_raises_iff [of n ZeroDivisionError]
  by (auto simp: calculator_raises result_counts)

theorem zero_divisor_raises_witness:
  "normalized_of zero_flow_input = Some ((scenario (Fin 500) (Fin 10))\<lparr>m_hot := Fin 0\<rparr>)
   \<and> float_mul (C_min ((scenario (Fin 500) (Fin 10))\<lparr>m_hot := Fin 0\<rparr>))
        (float_sub (Th_in ((scenario (Fin 500) (Fin 10))\<lparr>m_hot := Fin 0\<rparr>))
           (Tc_in ((scenario (Fin 500) (Fin 10))\<lparr>m_hot := Fin 0\<rparr>))) = Fin 0
   \<and> effectiveness ((scenario (Fin 500) (Fin 10))\<lparr>m_hot := Fin 0\<rparr>) = Inl ZeroDivisionError
   \<and> calculator zero_flow_input True = (results_header, Some ZeroDivisionError)
   \<and> delta_T2 ((scenario (Fin 500) (Fin 10))\<lparr>Th_out := Fin 20\<rparr>) = Fin 0
   \<and> float_ne (delta_T1 ((scenario (Fin 500) (Fin 10))\<lparr>Th_out := Fin 20\<rparr>))
        (delta_T2 ((scenario (Fin 500) (Fin 10))\<lparr>Th_out := Fin 20\<rparr>))
   \<and> LMTD ((scenario (Fin 500) (Fin 10))\<lparr>Th_out := Fin 20\<rparr>) = Inl ZeroDivisionError"
proof -
  let ?n = "(scenario (Fin 500) (Fin 10))\<lparr>m_hot := Fin 0\<rparr>"
  let ?p = "(scenario (Fin 500) (Fin 10))\<lparr>Th_out := Fin 20\<rparr>"
  have z: "float_mul (C_min ?n) (float_sub (Th_in ?n) (Tc_in ?n)) = Fin 0"
    by (simp add: scenario_def C_min_def py_min_def)
  then have zd: "zero_divisor ?n" by (simp add: zero_divisor_def)
  have p: "delta_T2 ?p = Fin 0 \<and> float_ne (delta_T1 ?p) (delta_T2 ?p)"
    by (simp add: scenario_def delta_T1_def delta_T2_def)
  from z zd p normalized_of_zero_flow_input show ?thesis
    using zero_divisor_raises [where n = ?n and r = zero_flow_input and c = True]
      zero_divisor_raises [where n = ?p]
    by blast
qed

text \<open>
  C1 as stated fails.  With no hot flow (\<open>m_hot = 0\<close>, so \<open>C_min = 0\<close>) all nine fields
  parse and the run ends in \<open>ZeroDivisionError\<close> after the results heading, with no
  output value at all; so does the run with the hot outlet at the cold inlet temperature
  (\<open>delta_T2 = 0\<close>, \<open>delta_T1 = 35\<close>).
\<close>

theorem zero_divisor_counterexample:
  "normalized_of zero_flow_input = Some ((scenario (Fin 500) (Fin 10))\<lparr>m_hot := Fin 0\<rparr>)
   \<and> float_mul (C_min ((scenario (Fin 500) (Fin 10))\<lparr>m_hot := Fin 0\<rparr>))
        (float_sub (Fin 80) (Fin 20)) = Fin 0
   \<and> calculator zero_flow_input False = (results_header, Some ZeroDivisionError)
   \<and> normalized_of pinch_input = Some ((scenario (Fin 500) (Fin 10))\<lparr>Th_out := Fin 20\<rparr>)
   \<and> delta_T1 ((scenario (Fin 500) (Fin 10))\<lparr>Th_out := Fin 20\<rparr>) = Fin 35
   \<and> delta_T2 ((scenario (Fin 500) (Fin 10))\<lparr>Th_out := Fin 20\<rparr>) = Fin 0
   \<and> calculator pinch_input False = (results_header, Some ZeroDivisionError)"
proof -
  have "zero_divisor ((scenario (Fin 500) (Fin 10))\<lparr>m_hot := Fin 0\<rparr>)"
    by (simp add: zero_divisor_def scenario_def C_min_def py_min_def)
  moreover have "zero_divisor ((scenario (Fin 500) (Fin 10))\<lparr>Th_out := Fin 20\<rparr>)"
    by (simp add: zero_divisor_def scenario_def delta_T1_def delta_T2_def)
  moreover have "float_mul (C_min ((scenario (Fin 500) (Fin 10))\<lparr>m_hot := Fin 0\<rparr>))
        (float_sub (Fin 80) (Fin 20)) = Fin 0"
    by (simp add: scenario_def C_min_def py_min_def)
  moreover have "delta_T1 ((scenario (Fin 500) (Fin 10))\<lparr>Th_out := Fin 20\<rparr>) = Fin 35
      \<and> delta_T2 ((scenario (Fin 500) (Fin 10))\<lparr>Th_out := Fin 20\<rparr>) = Fin 0"
    by (simp add: scenario_def delta_T1_def delta_T2_def)
  ultimately show ?thesis
    by (simp add: normalized_of_zero_flow_input normalized_of_pinch_input
        calculator_raises [OF normalized_of_zero_flow_input]
        calculator_raises [OF normalized_of_pinch_input])
qed

subsection \<open>The completeness gate\<close>

text \<open>
  C2, as it holds.  For every assignment of the nine text fields, the results branch is
  entered if and only if all nine fields parse; the three result lines and the chart are
  shown if and only if all nine fields parse and neither division of the computation has
  a zero divisor, and otherwise none of them is shown.  When any field is blank or does
  not parse, the page is exactly one informational message followed by the footer, the
  same whatever the fields hold, and no exception is raised.
\<close>

theorem completeness_gate:
  "(normalized_of r \<noteq> None \<longleftrightarrow> list_all (\<lambda>s. to_float s \<noteq> None) (text_fields r))
   \<and> length (filter is_result (fst (calculator r c))) =
       (if \<exists>n. normalized_of r = Some n \<and> \<not> zero_divisor n then 4 else 0)
   \<and> length (filter is_info (fst (calculator r c))) =
       (if list_all (\<lambda>s. to_float s \<noteq> None) (text_fields r) then 0 else 1)
   \<and> (\<not> list_all (\<lambda>s. to_float s \<noteq> None) (text_fields r) \<longrightarrow>
        calculator r c = (incomplete_message @ footer, None))"
  by (rule gate_cases [of r c, unfolded inputs_filled_iff])

theorem completeness_gate_witness:
  "list_all (\<lambda>s. to_float s \<noteq> None) (text_fields scenario_input)
   \<and> length (filter is_result (fst (calculator scenario_input False))) = 4
   \<and> length (filter is_info (fst (calculator scenario_input False))) = 0
   \<and> \<not> list_all (\<lambda>s. to_float s \<noteq> None) (text_fields blank_area_input)
   \<and> length (filter is_info (fst (calculator blank_area_input False))) = 1
   \<and> calculator blank_area_input False = (incomplete_message @ footer, None)"
proof -
  have a: "list_all (\<lambda>s. to_float s \<noteq> None) (text_fields scenario_input)"
    using scenario_input_filled unfolding inputs_filled_iff .
  have b: "\<not> list_all (\<lambda>s. to_float s \<noteq> None) (text_fields blank_area_input)"
    using example_inputs_filled(4) unfolding inputs_filled_iff .
  have c: "\<exists>n. normalized_of scenario_input = Some n \<and> \<not> zero_divisor n"
    by (simp add: normalized_of_scenario_input scenario_no_zero_divisor)
  from a b c show ?thesis
    using completeness_gate [of scenario_input False]
      completeness_gate [of blank_area_input False]
    by (simp add: result_counts)
qed

text \<open>
  C2 as stated fails.  With both inlets at 20 degrees all nine fields parse, yet the
  effectiveness division raises and neither a result nor the chart is shown.
\<close>

theorem completeness_gate_counterexample:
  "inputs_filled equal_inlets_input
   \<and> calculator equal_inlets_input False = (results_header, Some ZeroDivisionError)
   \<and> filter is_result results_header = []"
proof -
  have "zero_divisor ((scenario (Fin 500) (Fin 10))\<lparr>Th_in := Fin 20, Th_out := Fin 10\<rparr>)"
    by (simp add: zero_divisor_def scenario_def C_min_def py_min_def)
  then show ?thesis
    by (simp add: example_inputs_filled result_counts
        calculator_raises [OF normalized_of_equal_inlets_input])
qed

subsection \<open>Parsing a field\<close>




subsection \<open>The temperature profile\<close>

text \<open>
  C9.  The profile has exactly two samples, in this order: position 0 with the hot and
  the cold inlet temperature, position 1 with the hot and the cold outlet temperature,
  each the normalised input's value unchanged.  Whenever the results are shown, this
  profile is the one chart on the page.
\<close>

theorem profile_two_samples:
  "samples (profile n) = [(0, Th_in n, Tc_in n), (1, Th_out n, Tc_out n)]
   \<and> (normalized_of r = Some n \<and> \<not> zero_divisor n \<longrightarrow>
        charts (fst (calculator r c)) = [profile n])"
proof (intro conjI impI)
  show "samples (profile n) = [(0, Th_in n, Tc_in n), (1, Th_out n, Tc_out n)]"
    by (simp add: samples_def profile_def)
next
  assume a: "normalized_of r = Some n \<and> \<not> zero_divisor n"
  then obtain t where "thermal_solver n = Inr t"
    using thermal_solver_returns [of n] by blast
  with a have "calculator r c = (results_header @ results_widgets n t c @ footer, None)"
    by (simp add: calculator_results)
  then show "charts (fst (calculator r c)) = [profile n]"
    by (simp add: charts_def map_filter_def results_header_def results_widgets_def
        footer_def)
qed

theorem profile_two_samples_witness:
  "normalized_of scenario_input = Some (scenario (Fin 500) (Fin 10))
   \<and> \<not> zero_divisor (scenario (Fin 500) (Fin 10))
   \<and> charts (fst (calculator scenario_input False)) = [profile (scenario (Fin 500) (Fin 10))]
   \<and> samples (profile (scenario (Fin 500) (Fin 10))) =
       [(0, Fin 80, Fin 20), (1, Fin 50, Fin 45)]"
  using profile_two_samples [where n = "scenario (Fin 500) (Fin 10)" and r = scenario_input
      and c = False]
    normalized_of_scenario_input scenario_no_zero_divisor [of "Fin 500" "Fin 10"]
  by (simp add: scenario_def)

subsection \<open>The heat-transfer coefficient and the area\<close>

text \<open>
  C10.  The fields U and A must parse for the gate to pass: if either does not, the page
  is the informational message.  Once they parse, replacing them by any other texts that
  parse leaves the whole page unchanged, and the computed results and the profile do not
  depend on the values of U and A.
\<close>

theorem U_and_A_only_gate:
  "(to_float (U_input r) = None \<or> to_float (A_input r) = None \<longrightarrow>
      calculator r c = (incomplete_message @ footer, None))
   \<and> (to_float (U_input r) \<noteq> None \<and> to_float (A_input r) \<noteq> None
        \<and> to_float u \<noteq> None \<and> to_float a \<noteq> None \<longrightarrow>
       calculator (r\<lparr>U_input := u, A_input := a\<rparr>) c = calculator r c)
   \<and> thermal_solver (n\<lparr>U := u', A := a'\<rparr>) = thermal_solver n
   \<and> profile (n\<lparr>U := u', A := a'\<rparr>) = profile n"
proof (intro conjI impI)
  assume "to_float (U_input r) = None \<or> to_float (A_input r) = None"
  then have "\<not> inputs_filled r"
    by (auto simp: inputs_filled_iff text_fields_def)
  then show "calculator r c = (incomplete_message @ footer, None)"
    by (rule calculator_incomplete)
next
  assume "to_float (U_input r) \<noteq> None \<and> to_float (A_input r) \<noteq> None
        \<and> to_float u \<noteq> None \<and> to_float a \<noteq> None"
  then show "calculator (r\<lparr>U_input := u, A_input := a\<rparr>) c = calculator r c"
    by (simp add: U_A_change)
qed (simp_all add: solver_ignores_U_A)

theorem U_and_A_only_gate_witness:
  "to_float (A_input blank_area_input) = None
   \<and> calculator blank_area_input False = (incomplete_message @ footer, None)
   \<and> to_float (U_input scenario_input) \<noteq> None \<and> to_float (A_input scenario_input) \<noteq> None
   \<and> to_float ''1'' \<noteq> None \<and> to_float ''0'' \<noteq> None
   \<and> calculator (scenario_input\<lparr>U_input := ''1'', A_input := ''0''\<rparr>) False =
       calculator scenario_input False"
proof -
  have a: "to_float (A_input blank_area_input) = None"
    by (simp add: blank_area_input_def to_float_examples)
  have b: "to_float (U_input scenario_input) \<noteq> None \<and> to_float (A_input scenario_input) \<noteq> None
           \<and> to_float ''1'' \<noteq> None \<and> to_float ''0'' \<noteq> None"
    by (simp add: scenario_input_def to_float_examples)
  from a b show ?thesis
    using U_and_A_only_gate [where r = blank_area_input and c = False]
      U_and_A_only_gate [where r = scenario_input and u = "''1''" and a = "''0''"
        and c = False]
    by blast
qed

end
